theory Spec2Isabelle
  imports Main "HOL-Library.Sublist" "HOL-Library.Code_Target_Nat"
begin

section \<open>Python values\<close>

text \<open>
  A Python \<open>str\<close> is a sequence of Unicode code points; it is modelled as a list of
  natural numbers. \<open>ascii\<close> turns an ASCII literal into such a list.
\<close>

type_synonym pystr = "nat list"

definition ascii :: "string \<Rightarrow> pystr" where
  "ascii s = map of_char s"

text \<open>
  What \<open>json.load\<close> and \<open>request.get_json\<close> return. A dict is the list of its items
  (keys are distinct in a parsed object); numbers are kept as integers, the handlers
  only test them for truth.
\<close>

datatype json =
    JNull
  | JBool bool
  | JNum int
  | JStr pystr
  | JArr "json list"
  | JObj "(pystr \<times> json) list"

text \<open>Python truth value of an object, as tested by \<open>if x:\<close>.\<close>

fun truthy :: "json \<Rightarrow> bool" where
  "truthy JNull = False"
| "truthy (JBool b) = b"
| "truthy (JNum n) = (n \<noteq> 0)"
| "truthy (JStr s) = (s \<noteq> [])"
| "truthy (JArr xs) = (xs \<noteq> [])"
| "truthy (JObj d) = (d \<noteq> [])"

text \<open>\<open>d.get(key)\<close>: \<open>None\<close> stands for Python's \<open>None\<close> of a missing key.\<close>

definition dict_get :: "(pystr \<times> json) list \<Rightarrow> pystr \<Rightarrow> json option" where
  "dict_get d key = map_of d key"

text \<open>\<open>str.isspace\<close> of one code point: the white space that \<open>str.strip()\<close> removes.\<close>

definition isspace :: "nat \<Rightarrow> bool" where
  "isspace c \<longleftrightarrow>
     (9 \<le> c \<and> c \<le> 13) \<or> (28 \<le> c \<and> c \<le> 32) \<or> c = 133 \<or> c = 160 \<or> c = 5760 \<or>
     (8192 \<le> c \<and> c \<le> 8202) \<or> c = 8232 \<or> c = 8233 \<or> c = 8239 \<or> c = 8287 \<or> c = 12288"

definition strip :: "pystr \<Rightarrow> pystr" where
  "strip s = rev (dropWhile isspace (rev (dropWhile isspace s)))"

text \<open>\<open>sub in s\<close> on strings: \<open>sub\<close> occurs in \<open>s\<close> as a contiguous run.\<close>

fun py_in :: "pystr \<Rightarrow> pystr \<Rightarrow> bool" where
  "py_in sub [] = (sub = [])"
| "py_in sub (c # cs) = (prefix sub (c # cs) \<or> py_in sub cs)"

text \<open>The slices \<open>xs[i:]\<close> and \<open>xs[:i]\<close>; a negative index counts from the end.\<close>

definition slice_from :: "int \<Rightarrow> 'a list \<Rightarrow> 'a list" where
  "slice_from i xs =
     (let n = int (length xs);
          start = (if i < 0 then max 0 (n + i) else min i n)
      in drop (nat start) xs)"

definition slice_to :: "int \<Rightarrow> 'a list \<Rightarrow> 'a list" where
  "slice_to i xs =
     (let n = int (length xs);
          stop = (if i < 0 then max 0 (n + i) else min i n)
      in take (nat stop) xs)"

section \<open>Unicode case tables\<close>

text \<open>
  The tables behind \<open>str.lower\<close>, from the Unicode character database 14.0.0 that
  CPython 3.11 carries; code points below 128 are written out in the definitions, the
  tables hold the rest. A rule \<open>lo hi step target\<close> sends the code points
  \<open>lo, lo + step, ...\<close> up to \<open>hi\<close> to \<open>target, target + step, ...\<close>; every code
  point without a rule is its own lower case. The rules are kept in a search tree
  ordered by code point.
\<close>

datatype rule_tree = Tip | Fork rule_tree nat nat nat nat rule_tree

definition LOWER_RULES :: rule_tree where
  "LOWER_RULES =
     (Fork
       (Fork
         (Fork
           (Fork
             (Fork
               (Fork
                 (Fork
                   (Fork Tip 192 214 1 224 Tip)
                   216 222 1 248
                   Tip)
                 256 302 2 257
                 (Fork
                   (Fork Tip 306 310 2 307 Tip)
                   313 327 2 314
                   Tip))
               330 374 2 331
               (Fork
                 (Fork
                   (Fork Tip 376 376 1 255 Tip)
                   377 381 2 378
                   Tip)
                 385 385 1 595
                 (Fork
                   (Fork Tip 386 388 2 387 Tip)
                   390 390 1 596
                   Tip)))
             391 391 1 392
             (Fork
               (Fork
                 (Fork
                   (Fork Tip 393 394 1 598 Tip)
                   395 395 1 396
                   Tip)
                 398 398 1 477
                 (Fork
                   (Fork Tip 399 399 1 601 Tip)
                   400 400 1 603
                   Tip))
               401 401 1 402
               (Fork
                 (Fork
                   (Fork Tip 403 403 1 608 Tip)
                   404 404 1 611
                   Tip)
                 406 406 1 617
                 (Fork Tip 407 407 1 616 Tip))))
           408 408 1 409
           (Fork
             (Fork
               (Fork
                 (Fork
                   (Fork Tip 412 412 1 623 Tip)
                   413 413 1 626
                   Tip)
                 415 415 1 629
                 (Fork
                   (Fork Tip 416 420 2 417 Tip)
                   422 422 1 640
                   Tip))
               423 423 1 424
               (Fork
                 (Fork
                   (Fork Tip 425 425 1 643 Tip)
                   428 428 1 429
                   Tip)
                 430 430 1 648
                 (Fork
                   (Fork Tip 431 431 1 432 Tip)
                   433 434 1 650
                   Tip)))
             435 437 2 436
             (Fork
               (Fork
                 (Fork
                   (Fork Tip 439 439 1 658 Tip)
                   440 440 1 441
                   Tip)
                 444 444 1 445
                 (Fork
                   (Fork Tip 452 452 1 454 Tip)
                   453 453 1 454
                   Tip))
               455 455 1 457
               (Fork
                 (Fork
                   (Fork Tip 456 456 1 457 Tip)
                   458 458 1 460
                   Tip)
                 459 475 2 460
                 (Fork Tip 478 494 2 479 Tip)))))
         497 497 1 499
         (Fork
           (Fork
             (Fork
               (Fork
                 (Fork
                   (Fork Tip 498 500 2 499 Tip)
                   502 502 1 405
                   Tip)
                 503 503 1 447
                 (Fork
                   (Fork Tip 504 542 2 505 Tip)
                   544 544 1 414
                   Tip))
               546 562 2 547
               (Fork
                 (Fork
                   (Fork Tip 570 570 1 11365 Tip)
                   571 571 1 572
                   Tip)
                 573 573 1 410
                 (Fork
                   (Fork Tip 574 574 1 11366 Tip)
                   577 577 1 578
                   Tip)))
             579 579 1 384
             (Fork
               (Fork
                 (Fork
                   (Fork Tip 580 580 1 649 Tip)
                   581 581 1 652
                   Tip)
                 582 590 2 583
                 (Fork
                   (Fork Tip 880 882 2 881 Tip)
                   886 886 1 887
                   Tip))
               895 895 1 1011
               (Fork
                 (Fork
                   (Fork Tip 902 902 1 940 Tip)
                   904 906 1 941
                   Tip)
                 908 908 1 972
                 (Fork Tip 910 911 1 973 Tip))))
           913 929 1 945
           (Fork
             (Fork
               (Fork
                 (Fork
                   (Fork Tip 931 939 1 963 Tip)
                   975 975 1 983
                   Tip)
                 984 1006 2 985
                 (Fork
                   (Fork Tip 1012 1012 1 952 Tip)
                   1015 1015 1 1016
                   Tip))
               1017 1017 1 1010
               (Fork
                 (Fork
                   (Fork Tip 1018 1018 1 1019 Tip)
                   1021 1023 1 891
                   Tip)
                 1024 1039 1 1104
                 (Fork Tip 1040 1071 1 1072 Tip)))
             1120 1152 2 1121
             (Fork
               (Fork
                 (Fork
                   (Fork Tip 1162 1214 2 1163 Tip)
                   1216 1216 1 1231
                   Tip)
                 1217 1229 2 1218
                 (Fork
                   (Fork Tip 1232 1326 2 1233 Tip)
                   1329 1366 1 1377
                   Tip))
               4256 4293 1 11520
               (Fork
                 (Fork
                   (Fork Tip 4295 4295 1 11559 Tip)
                   4301 4301 1 11565
                   Tip)
                 5024 5103 1 43888
                 (Fork Tip 5104 5109 1 5112 Tip))))))
       7312 7354 1 4304
       (Fork
         (Fork
           (Fork
             (Fork
               (Fork
                 (Fork
                   (Fork Tip 7357 7359 1 4349 Tip)
                   7680 7828 2 7681
                   Tip)
                 7838 7838 1 223
                 (Fork
                   (Fork Tip 7840 7934 2 7841 Tip)
                   7944 7951 1 7936
                   Tip))
               7960 7965 1 7952
               (Fork
                 (Fork
                   (Fork Tip 7976 7983 1 7968 Tip)
                   7992 7999 1 7984
                   Tip)
                 8008 8013 1 8000
                 (Fork
                   (Fork Tip 8025 8031 2 8017 Tip)
                   8040 8047 1 8032
                   Tip)))
             8072 8079 1 8064
             (Fork
               (Fork
                 (Fork
                   (Fork Tip 8088 8095 1 8080 Tip)
                   8104 8111 1 8096
                   Tip)
                 8120 8121 1 8112
                 (Fork
                   (Fork Tip 8122 8123 1 8048 Tip)
                   8124 8124 1 8115
                   Tip))
               8136 8139 1 8050
               (Fork
                 (Fork
                   (Fork Tip 8140 8140 1 8131 Tip)
                   8152 8153 1 8144
                   Tip)
                 8154 8155 1 8054
                 (Fork Tip 8168 8169 1 8160 Tip))))
           8170 8171 1 8058
           (Fork
             (Fork
               (Fork
                 (Fork
                   (Fork Tip 8172 8172 1 8165 Tip)
                   8184 8185 1 8056
                   Tip)
                 8186 8187 1 8060
                 (Fork
                   (Fork Tip 8188 8188 1 8179 Tip)
                   8486 8486 1 969
                   Tip))
               8490 8490 1 107
               (Fork
                 (Fork
                   (Fork Tip 8491 8491 1 229 Tip)
                   8498 8498 1 8526
                   Tip)
                 8544 8559 1 8560
                 (Fork Tip 8579 8579 1 8580 Tip)))
             9398 9423 1 9424
             (Fork
               (Fork
                 (Fork
                   (Fork Tip 11264 11311 1 11312 Tip)
                   11360 11360 1 11361
                   Tip)
                 11362 11362 1 619
                 (Fork
                   (Fork Tip 11363 11363 1 7549 Tip)
                   11364 11364 1 637
                   Tip))
               11367 11371 2 11368
               (Fork
                 (Fork
                   (Fork Tip 11373 11373 1 593 Tip)
                   11374 11374 1 625
                   Tip)
                 11375 11375 1 592
                 (Fork Tip 11376 11376 1 594 Tip)))))
         11378 11378 1 11379
         (Fork
           (Fork
             (Fork
               (Fork
                 (Fork
                   (Fork Tip 11381 11381 1 11382 Tip)
                   11390 11391 1 575
                   Tip)
                 11392 11490 2 11393
                 (Fork
                   (Fork Tip 11499 11501 2 11500 Tip)
                   11506 11506 1 11507
                   Tip))
               42560 42604 2 42561
               (Fork
                 (Fork
                   (Fork Tip 42624 42650 2 42625 Tip)
                   42786 42798 2 42787
                   Tip)
                 42802 42862 2 42803
                 (Fork
                   (Fork Tip 42873 42875 2 42874 Tip)
                   42877 42877 1 7545
                   Tip)))
             42878 42886 2 42879
             (Fork
               (Fork
                 (Fork
                   (Fork Tip 42891 42891 1 42892 Tip)
                   42893 42893 1 613
                   Tip)
                 42896 42898 2 42897
                 (Fork
                   (Fork Tip 42902 42920 2 42903 Tip)
                   42922 42922 1 614
                   Tip))
               42923 42923 1 604
               (Fork
                 (Fork
                   (Fork Tip 42924 42924 1 609 Tip)
                   42925 42925 1 620
                   Tip)
                 42926 42926 1 618
                 (Fork Tip 42928 42928 1 670 Tip))))
           42929 42929 1 647
           (Fork
             (Fork
               (Fork
                 (Fork
                   (Fork Tip 42930 42930 1 669 Tip)
                   42931 42931 1 43859
                   Tip)
                 42932 42946 2 42933
                 (Fork
                   (Fork Tip 42948 42948 1 42900 Tip)
                   42949 42949 1 642
                   Tip))
               42950 42950 1 7566
               (Fork
                 (Fork
                   (Fork Tip 42951 42953 2 42952 Tip)
                   42960 42960 1 42961
                   Tip)
                 42966 42968 2 42967
                 (Fork Tip 42997 42997 1 42998 Tip)))
             65313 65338 1 65345
             (Fork
               (Fork
                 (Fork
                   (Fork Tip 66560 66599 1 66600 Tip)
                   66736 66771 1 66776
                   Tip)
                 66928 66938 1 66967
                 (Fork
                   (Fork Tip 66940 66954 1 66979 Tip)
                   66956 66962 1 66995
                   Tip))
               66964 66965 1 67003
               (Fork
                 (Fork
                   (Fork Tip 68736 68786 1 68800 Tip)
                   71840 71871 1 71872
                   Tip)
                 93760 93791 1 93792
                 (Fork Tip 125184 125217 1 125218 Tip)))))))"

text \<open>Search in the tree; \<open>None\<close> when no rule holds the code point.\<close>

fun find_rule :: "rule_tree \<Rightarrow> nat \<Rightarrow> nat option" where
  "find_rule Tip c = None"
| "find_rule (Fork left lo hi step target right) c =
     (if c < lo then find_rule left c
      else if hi < c then find_rule right c
      else if (c - lo) mod step = 0 then Some (target + (c - lo))
      else None)"

text \<open>Code points with the property Cased, and those with the property Case_Ignorable.\<close>

definition CASED_RANGES :: "(nat \<times> nat) list" where
  "CASED_RANGES =
     [
      (170, 170), (181, 181), (186, 186), (192, 214), (216, 246), (248, 442), (444, 447),
      (452, 659), (661, 696), (704, 705), (736, 740), (837, 837), (880, 883), (886, 887),
      (890, 893), (895, 895), (902, 902), (904, 906), (908, 908), (910, 929), (931, 1013),
      (1015, 1153), (1162, 1327), (1329, 1366), (1376, 1416), (4256, 4293), (4295, 4295),
      (4301, 4301), (4304, 4346), (4349, 4351), (5024, 5109), (5112, 5117), (7296, 7304),
      (7312, 7354), (7357, 7359), (7424, 7615), (7680, 7957), (7960, 7965), (7968, 8005),
      (8008, 8013), (8016, 8023), (8025, 8025), (8027, 8027), (8029, 8029), (8031, 8061),
      (8064, 8116), (8118, 8124), (8126, 8126), (8130, 8132), (8134, 8140), (8144, 8147),
      (8150, 8155), (8160, 8172), (8178, 8180), (8182, 8188), (8305, 8305), (8319, 8319),
      (8336, 8348), (8450, 8450), (8455, 8455), (8458, 8467), (8469, 8469), (8473, 8477),
      (8484, 8484), (8486, 8486), (8488, 8488), (8490, 8493), (8495, 8500), (8505, 8505),
      (8508, 8511), (8517, 8521), (8526, 8526), (8544, 8575), (8579, 8580), (9398, 9449),
      (11264, 11492), (11499, 11502), (11506, 11507), (11520, 11557), (11559, 11559),
      (11565, 11565), (42560, 42605), (42624, 42653), (42786, 42887), (42891, 42894),
      (42896, 42954), (42960, 42961), (42963, 42963), (42965, 42969), (42997, 42998),
      (43000, 43002), (43824, 43866), (43868, 43880), (43888, 43967), (64256, 64262),
      (64275, 64279), (65313, 65338), (65345, 65370), (66560, 66639), (66736, 66771),
      (66776, 66811), (66928, 66938), (66940, 66954), (66956, 66962), (66964, 66965),
      (66967, 66977), (66979, 66993), (66995, 67001), (67003, 67004), (67456, 67456),
      (67459, 67461), (67463, 67504), (67506, 67514), (68736, 68786), (68800, 68850),
      (71840, 71903), (93760, 93823), (119808, 119892), (119894, 119964), (119966, 119967),
      (119970, 119970), (119973, 119974), (119977, 119980), (119982, 119993), (119995, 119995),
      (119997, 120003), (120005, 120069), (120071, 120074), (120077, 120084), (120086, 120092),
      (120094, 120121), (120123, 120126), (120128, 120132), (120134, 120134), (120138, 120144),
      (120146, 120485), (120488, 120512), (120514, 120538), (120540, 120570), (120572, 120596),
      (120598, 120628), (120630, 120654), (120656, 120686), (120688, 120712), (120714, 120744),
      (120746, 120770), (120772, 120779), (122624, 122633), (122635, 122654), (125184, 125251),
      (127280, 127305), (127312, 127337), (127344, 127369)]"

definition CASE_IGNORABLE_RANGES :: "(nat \<times> nat) list" where
  "CASE_IGNORABLE_RANGES =
     [
      (168, 168), (173, 173), (175, 175), (180, 180), (183, 184), (688, 879), (884, 885),
      (890, 890), (900, 901), (903, 903), (1155, 1161), (1369, 1369), (1375, 1375),
      (1425, 1469), (1471, 1471), (1473, 1474), (1476, 1477), (1479, 1479), (1524, 1524),
      (1536, 1541), (1552, 1562), (1564, 1564), (1600, 1600), (1611, 1631), (1648, 1648),
      (1750, 1757), (1759, 1768), (1770, 1773), (1807, 1807), (1809, 1809), (1840, 1866),
      (1958, 1968), (2027, 2037), (2042, 2042), (2045, 2045), (2070, 2093), (2137, 2139),
      (2184, 2184), (2192, 2193), (2200, 2207), (2249, 2306), (2362, 2362), (2364, 2364),
      (2369, 2376), (2381, 2381), (2385, 2391), (2402, 2403), (2417, 2417), (2433, 2433),
      (2492, 2492), (2497, 2500), (2509, 2509), (2530, 2531), (2558, 2558), (2561, 2562),
      (2620, 2620), (2625, 2626), (2631, 2632), (2635, 2637), (2641, 2641), (2672, 2673),
      (2677, 2677), (2689, 2690), (2748, 2748), (2753, 2757), (2759, 2760), (2765, 2765),
      (2786, 2787), (2810, 2815), (2817, 2817), (2876, 2876), (2879, 2879), (2881, 2884),
      (2893, 2893), (2901, 2902), (2914, 2915), (2946, 2946), (3008, 3008), (3021, 3021),
      (3072, 3072), (3076, 3076), (3132, 3132), (3134, 3136), (3142, 3144), (3146, 3149),
      (3157, 3158), (3170, 3171), (3201, 3201), (3260, 3260), (3263, 3263), (3270, 3270),
      (3276, 3277), (3298, 3299), (3328, 3329), (3387, 3388), (3393, 3396), (3405, 3405),
      (3426, 3427), (3457, 3457), (3530, 3530), (3538, 3540), (3542, 3542), (3633, 3633),
      (3636, 3642), (3654, 3662), (3761, 3761), (3764, 3772), (3782, 3782), (3784, 3789),
      (3864, 3865), (3893, 3893), (3895, 3895), (3897, 3897), (3953, 3966), (3968, 3972),
      (3974, 3975), (3981, 3991), (3993, 4028), (4038, 4038), (4141, 4144), (4146, 4151),
      (4153, 4154), (4157, 4158), (4184, 4185), (4190, 4192), (4209, 4212), (4226, 4226),
      (4229, 4230), (4237, 4237), (4253, 4253), (4348, 4348), (4957, 4959), (5906, 5908),
      (5938, 5939), (5970, 5971), (6002, 6003), (6068, 6069), (6071, 6077), (6086, 6086),
      (6089, 6099), (6103, 6103), (6109, 6109), (6155, 6159), (6211, 6211), (6277, 6278),
      (6313, 6313), (6432, 6434), (6439, 6440), (6450, 6450), (6457, 6459), (6679, 6680),
      (6683, 6683), (6742, 6742), (6744, 6750), (6752, 6752), (6754, 6754), (6757, 6764),
      (6771, 6780), (6783, 6783), (6823, 6823), (6832, 6862), (6912, 6915), (6964, 6964),
      (6966, 6970), (6972, 6972), (6978, 6978), (7019, 7027), (7040, 7041), (7074, 7077),
      (7080, 7081), (7083, 7085), (7142, 7142), (7144, 7145), (7149, 7149), (7151, 7153),
      (7212, 7219), (7222, 7223), (7288, 7293), (7376, 7378), (7380, 7392), (7394, 7400),
      (7405, 7405), (7412, 7412), (7416, 7417), (7468, 7530), (7544, 7544), (7579, 7679),
      (8125, 8125), (8127, 8129), (8141, 8143), (8157, 8159), (8173, 8175), (8189, 8190),
      (8203, 8207), (8216, 8217), (8228, 8228), (8231, 8231), (8234, 8238), (8288, 8292),
      (8294, 8303), (8305, 8305), (8319, 8319), (8336, 8348), (8400, 8432), (11388, 11389),
      (11503, 11505), (11631, 11631), (11647, 11647), (11744, 11775), (11823, 11823),
      (12293, 12293), (12330, 12333), (12337, 12341), (12347, 12347), (12441, 12446),
      (12540, 12542), (40981, 40981), (42232, 42237), (42508, 42508), (42607, 42610),
      (42612, 42621), (42623, 42623), (42652, 42655), (42736, 42737), (42752, 42785),
      (42864, 42864), (42888, 42890), (42994, 42996), (43000, 43001), (43010, 43010),
      (43014, 43014), (43019, 43019), (43045, 43046), (43052, 43052), (43204, 43205),
      (43232, 43249), (43263, 43263), (43302, 43309), (43335, 43345), (43392, 43394),
      (43443, 43443), (43446, 43449), (43452, 43453), (43471, 43471), (43493, 43494),
      (43561, 43566), (43569, 43570), (43573, 43574), (43587, 43587), (43596, 43596),
      (43632, 43632), (43644, 43644), (43696, 43696), (43698, 43700), (43703, 43704),
      (43710, 43711), (43713, 43713), (43741, 43741), (43756, 43757), (43763, 43764),
      (43766, 43766), (43867, 43871), (43881, 43883), (44005, 44005), (44008, 44008),
      (44013, 44013), (64286, 64286), (64434, 64450), (65024, 65039), (65043, 65043),
      (65056, 65071), (65106, 65106), (65109, 65109), (65279, 65279), (65287, 65287),
      (65294, 65294), (65306, 65306), (65342, 65342), (65344, 65344), (65392, 65392),
      (65438, 65439), (65507, 65507), (65529, 65531), (66045, 66045), (66272, 66272),
      (66422, 66426), (67456, 67461), (67463, 67504), (67506, 67514), (68097, 68099),
      (68101, 68102), (68108, 68111), (68152, 68154), (68159, 68159), (68325, 68326),
      (68900, 68903), (69291, 69292), (69446, 69456), (69506, 69509), (69633, 69633),
      (69688, 69702), (69744, 69744), (69747, 69748), (69759, 69761), (69811, 69814),
      (69817, 69818), (69821, 69821), (69826, 69826), (69837, 69837), (69888, 69890),
      (69927, 69931), (69933, 69940), (70003, 70003), (70016, 70017), (70070, 70078),
      (70089, 70092), (70095, 70095), (70191, 70193), (70196, 70196), (70198, 70199),
      (70206, 70206), (70367, 70367), (70371, 70378), (70400, 70401), (70459, 70460),
      (70464, 70464), (70502, 70508), (70512, 70516), (70712, 70719), (70722, 70724),
      (70726, 70726), (70750, 70750), (70835, 70840), (70842, 70842), (70847, 70848),
      (70850, 70851), (71090, 71093), (71100, 71101), (71103, 71104), (71132, 71133),
      (71219, 71226), (71229, 71229), (71231, 71232), (71339, 71339), (71341, 71341),
      (71344, 71349), (71351, 71351), (71453, 71455), (71458, 71461), (71463, 71467),
      (71727, 71735), (71737, 71738), (71995, 71996), (71998, 71998), (72003, 72003),
      (72148, 72151), (72154, 72155), (72160, 72160), (72193, 72202), (72243, 72248),
      (72251, 72254), (72263, 72263), (72273, 72278), (72281, 72283), (72330, 72342),
      (72344, 72345), (72752, 72758), (72760, 72765), (72767, 72767), (72850, 72871),
      (72874, 72880), (72882, 72883), (72885, 72886), (73009, 73014), (73018, 73018),
      (73020, 73021), (73023, 73029), (73031, 73031), (73104, 73105), (73109, 73109),
      (73111, 73111), (73459, 73460), (78896, 78904), (92912, 92916), (92976, 92982),
      (92992, 92995), (94031, 94031), (94095, 94111), (94176, 94177), (94179, 94180),
      (110576, 110579), (110581, 110587), (110589, 110590), (113821, 113822), (113824, 113827),
      (118528, 118573), (118576, 118598), (119143, 119145), (119155, 119170), (119173, 119179),
      (119210, 119213), (119362, 119364), (121344, 121398), (121403, 121452), (121461, 121461),
      (121476, 121476), (121499, 121503), (121505, 121519), (122880, 122886), (122888, 122904),
      (122907, 122913), (122915, 122916), (122918, 122922), (123184, 123197), (123566, 123566),
      (123628, 123631), (125136, 125142), (125252, 125259), (127995, 127999), (917505, 917505),
      (917536, 917631), (917760, 917999)]"

definition in_ranges :: "(nat \<times> nat) list \<Rightarrow> nat \<Rightarrow> bool" where
  "in_ranges ranges c = list_ex (\<lambda>(lo, hi). lo \<le> c \<and> c \<le> hi) ranges"

definition is_cased :: "nat \<Rightarrow> bool" where
  "is_cased c =
     (if c < 128 then (65 \<le> c \<and> c \<le> 90) \<or> (97 \<le> c \<and> c \<le> 122)
      else in_ranges CASED_RANGES c)"

definition is_case_ignorable :: "nat \<Rightarrow> bool" where
  "is_case_ignorable c =
     (if c < 128 then c = 39 \<or> c = 46 \<or> c = 58 \<or> c = 94 \<or> c = 96
      else in_ranges CASE_IGNORABLE_RANGES c)"

text \<open>
  The full lower-case mapping of one code point: a list, because U+0130 (capital I
  with dot above) becomes two code points.
\<close>

definition to_lower_full :: "nat \<Rightarrow> nat list" where
  "to_lower_full c =
     (if c < 128 then (if 65 \<le> c \<and> c \<le> 90 then [c + 32] else [c])
      else if c = 304 then [105, 775]
      else (case find_rule LOWER_RULES c of None \<Rightarrow> [c] | Some d \<Rightarrow> [d]))"

text \<open>
  \<open>str.lower\<close>. Every code point is replaced by its lower-case mapping, except the
  capital sigma U+03A3: it becomes the final sigma U+03C2 when the nearest code point
  before it that is not case-ignorable is cased and the nearest one after it that is
  not case-ignorable is not cased (or there is none), and the small sigma U+03C3
  otherwise. \<open>before\<close> is the text already passed, nearest code point first.
\<close>

definition final_sigma :: "pystr \<Rightarrow> pystr \<Rightarrow> bool" where
  "final_sigma before after =
     (case dropWhile is_case_ignorable before of
        [] \<Rightarrow> False
      | b # _ \<Rightarrow>
          is_cased b \<and>
          (case dropWhile is_case_ignorable after of
             [] \<Rightarrow> True
           | a # _ \<Rightarrow> \<not> is_cased a))"

fun lower_from :: "pystr \<Rightarrow> pystr \<Rightarrow> pystr" where
  "lower_from before [] = []"
| "lower_from before (c # rest) =
     (if c = 931 then [if final_sigma before rest then 962 else 963] else to_lower_full c)
     @ lower_from (c # before) rest"

definition lower :: "pystr \<Rightarrow> pystr" where
  "lower s = lower_from [] s"

section \<open>The server log\<close>

text \<open>
  \<open>print\<close> writes to standard output, taken to be a UTF-8 text stream (the log lines
  of the program start with emoji). Encoding a surrogate code point, U+D800 to U+DFFF,
  raises \<open>UnicodeEncodeError\<close>; every other text is written. \<open>print_ok s\<close>: printing
  \<open>s\<close> returns.
\<close>

definition surrogate :: "nat \<Rightarrow> bool" where
  "surrogate c \<longleftrightarrow> 55296 \<le> c \<and> c \<le> 57343"

definition print_ok :: "pystr \<Rightarrow> bool" where
  "print_ok s \<longleftrightarrow> \<not> list_ex surrogate s"

section \<open>Configuration and the transcript file\<close>

text \<open>
  \<open>OPENAI_API_KEY = os.getenv("OPENAI_API_KEY")\<close> is \<open>None\<close> when the variable is not
  set; \<open>SITE_URL\<close> has a default and is always a string.
\<close>

record config =
  OPENAI_API_KEY :: "pystr option"
  SITE_URL :: pystr

definition EMERGENCY_KEYWORDS :: "pystr list" where
  "EMERGENCY_KEYWORDS =
     [ascii ''chest pain'', ascii ''difficulty breathing'', ascii ''shortness of breath'',
      ascii ''severe pain'', ascii ''unconscious'', ascii ''heart attack'', ascii ''stroke'',
      ascii ''bleeding heavily'',
      [2360, 2368, 2344, 2375, 32, 2350, 2375, 2306, 32, 2342, 2352, 2381, 2342],
      [2360, 2366, 2306, 2360, 32, 2354, 2375, 2344, 2375, 32, 2350, 2375, 2306, 32,
       2342, 2367, 2325, 2381, 2325, 2340],
      [2348, 2375, 2361, 2379, 2358, 2368],
      [2340, 2375, 2332, 32, 2342, 2352, 2381, 2342]]"

text \<open>
  The file \<open>chat_history.json\<close>: it does not exist, or it cannot be opened or parsed,
  or it holds a JSON value.
\<close>

datatype file_state = Absent | Unreadable | Content json

definition load_chat_history :: "file_state \<Rightarrow> json" where
  "load_chat_history fs =
     (case fs of
        Absent \<Rightarrow> JArr []
      | Unreadable \<Rightarrow> JArr []
      | Content j \<Rightarrow> j)"

text \<open>
  What the file system does with \<open>open(..., 'w')\<close> and \<open>json.dump\<close>: the write goes
  through, or it raises an exception with some message and leaves the file in some
  state (untouched, truncated, ...). The exception is \<open>Inl\<close> of its message.
\<close>

datatype write_outcome = WriteOk | WriteFails pystr file_state

definition write_json :: "write_outcome \<Rightarrow> json \<Rightarrow> (pystr + unit) \<times> file_state" where
  "write_json w history =
     (case w of
        WriteOk \<Rightarrow> (Inr (), Content history)
      | WriteFails e fs' \<Rightarrow> (Inl e, fs'))"

text \<open>\<open>save_chat_history\<close>: the \<open>except Exception\<close> clause prints the error and returns.\<close>

definition save_chat_history :: "write_outcome \<Rightarrow> json \<Rightarrow> (pystr + unit) \<times> file_state" where
  "save_chat_history w history =
     (case write_json w history of
        (Inr u, fs') \<Rightarrow> (Inr (), fs')
      | (Inl e, fs') \<Rightarrow> (Inr (), fs'))"

section \<open>Emergency detector\<close>

definition detect_emergency :: "pystr \<Rightarrow> bool" where
  "detect_emergency text =
     list_ex (\<lambda>keyword. py_in (lower keyword) (lower text)) EMERGENCY_KEYWORDS"

section \<open>Model gateway\<close>

definition msg :: "string \<Rightarrow> json \<Rightarrow> json" where
  "msg r c = JObj [(ascii ''role'', JStr (ascii r)), (ascii ''content'', c)]"

definition SYSTEM_PROMPT :: pystr where
  "SYSTEM_PROMPT = ascii ''You are a friendly healthcare assistant who can speak English, Hindi, and Punjabi. Provide helpful health advice but always remind users to consult doctors for serious issues. Keep responses concise and caring.''"

text \<open>
  \<open>chat_history[-6:]\<close> and the iteration over it: a list gives its last elements, a
  string gives its last characters as one-character strings, any other value raises
  (\<open>None\<close>).
\<close>

definition history_window :: "json \<Rightarrow> json list option" where
  "history_window chat_history =
     (case chat_history of
        JArr xs \<Rightarrow> Some (slice_from (- 6) xs)
      | JStr s \<Rightarrow> Some (map (\<lambda>c. JStr [c]) (slice_from (- 6) s))
      | _ \<Rightarrow> None)"

text \<open>\<open>if chat.get(key): messages.append({"role": r, "content": chat[key]})\<close>\<close>

definition append_turn_part :: "string \<Rightarrow> pystr \<Rightarrow> (pystr \<times> json) list \<Rightarrow> json list \<Rightarrow> json list" where
  "append_turn_part r key d messages =
     (case dict_get d key of
        None \<Rightarrow> messages
      | Some v \<Rightarrow> if truthy v then messages @ [msg r v] else messages)"

text \<open>
  The \<open>for chat in ...\<close> loop of \<open>get_gpt_response\<close> with the list \<open>messages\<close> as its
  state; \<open>chat.get\<close> raises \<open>AttributeError\<close> (\<open>None\<close>) on a value that is not a dict.
\<close>

fun add_context :: "json list \<Rightarrow> json list \<Rightarrow> json list option" where
  "add_context [] messages = Some messages"
| "add_context (chat # rest) messages =
     (case chat of
        JObj d \<Rightarrow>
          add_context rest
            (append_turn_part ''assistant'' (ascii ''bot'') d
               (append_turn_part ''user'' (ascii ''user'') d messages))
      | _ \<Rightarrow> None)"

text \<open>Lines 55 to 64 of \<open>get_gpt_response\<close>: the outbound message list.\<close>

definition compose_messages :: "pystr \<Rightarrow> json \<Rightarrow> json list option" where
  "compose_messages user_input chat_history =
     (case history_window chat_history of
        None \<Rightarrow> None
      | Some window \<Rightarrow>
          (case add_context window [msg ''system'' (JStr SYSTEM_PROMPT)] of
             None \<Rightarrow> None
           | Some messages \<Rightarrow> Some (messages @ [msg ''user'' (JStr user_input)])))"

definition AUTH_WARNING :: pystr where
  "AUTH_WARNING = [9888, 65039] @ ascii '' API authentication failed. Please check your OpenRouter API key.''"

definition CREDITS_WARNING :: pystr where
  "CREDITS_WARNING = [9888, 65039] @ ascii '' API credits exhausted. Please add credits to your OpenRouter account.''"

definition RATE_LIMIT_WARNING :: pystr where
  "RATE_LIMIT_WARNING = [9888, 65039] @ ascii '' Too many requests. Please wait a moment and try again.''"

definition TIMEOUT_WARNING :: pystr where
  "TIMEOUT_WARNING = [9888, 65039] @ ascii '' Request timed out. Please try again.''"

definition GENERIC_WARNING :: pystr where
  "GENERIC_WARNING = [9888, 65039] @ ascii '' Something went wrong, please try again.''"

text \<open>The \<open>except Exception as e\<close> clause of \<open>get_gpt_response\<close>, on \<open>error_msg = str(e)\<close>.\<close>

definition error_reply :: "pystr \<Rightarrow> pystr" where
  "error_reply error_msg =
     (if py_in (ascii ''401'') error_msg \<or> py_in (ascii ''authentication'') (lower error_msg)
      then AUTH_WARNING
      else if py_in (ascii ''402'') error_msg \<or> py_in (ascii ''credit'') (lower error_msg)
      then CREDITS_WARNING
      else if py_in (ascii ''429'') error_msg \<or> py_in (ascii ''rate limit'') (lower error_msg)
      then RATE_LIMIT_WARNING
      else if py_in (ascii ''timeout'') (lower error_msg)
      then TIMEOUT_WARNING
      else GENERIC_WARNING)"

text \<open>
  The outcome of the \<open>try\<close> block of \<open>get_gpt_response\<close> (lines 66 to 84) for a
  message list (model, temperature, token limit and headers are constants): it gets
  the content of the first choice and returns it stripped, or one of its statements
  (the request, reading the completion, a log line) raises an exception whose \<open>str\<close>
  is given. The texts of exceptions are built by Python and by the client library from
  fixed phrases, numbers and escaped reprs; printing them (lines 47, 88 and 153) returns.
\<close>

datatype api_outcome = ApiReturns pystr | ApiRaises pystr

text \<open>
  \<open>get_gpt_response\<close> returns the reply (\<open>None\<close> when an exception escapes, which only
  composing the messages can cause) and the message lists it has handed to the
  upstream call.
\<close>

definition get_gpt_response ::
  "(json list \<Rightarrow> api_outcome) \<Rightarrow> pystr \<Rightarrow> json \<Rightarrow> pystr option \<times> json list list" where
  "get_gpt_response api user_input chat_history =
     (case compose_messages user_input chat_history of
        None \<Rightarrow> (None, [])
      | Some messages \<Rightarrow>
          (case api messages of
             ApiReturns c \<Rightarrow> (Some (strip c), [messages])
           | ApiRaises error_msg \<Rightarrow> (Some (error_reply error_msg), [messages])))"

section \<open>HTTP surface\<close>

record http_response =
  status :: nat
  body :: json

definition error_body :: "pystr \<Rightarrow> json" where
  "error_body e = JObj [(ascii ''error'', JStr e)]"

definition EMERGENCY_REPLY :: pystr where
  "EMERGENCY_REPLY =
     [128680] @ ascii '' This may be an emergency! Please seek urgent medical help immediately:''
     @ [10, 10, 128222] @ ascii '' Call 102 (Ambulance)''
     @ [10, 128222] @ ascii '' Call 108 (Emergency)''
     @ [10, 127973] @ ascii '' Visit nearest hospital''
     @ [10, 10] @ ascii ''Your safety is the priority!''"

text \<open>The lines that \<open>chat\<close> prints (lines 118 and 132 of the source).\<close>

definition user_log_line :: "pystr \<Rightarrow> pystr" where
  "user_log_line user_message = [128172] @ ascii '' User: '' @ user_message"

definition bot_log_line :: "pystr \<Rightarrow> pystr" where
  "bot_log_line bot_response = [129302] @ ascii '' Bot: '' @ slice_to 100 bot_response @ ascii ''...''"

text \<open>What a request to \<open>/api/chat\<close> leaves behind: the response, the file, the upstream requests made.\<close>

record chat_result =
  response :: http_response
  store :: file_state
  upstream :: "json list list"

text \<open>The \<open>except Exception\<close> clause of \<open>chat\<close>.\<close>

definition chat_failed :: "file_state \<Rightarrow> json list list \<Rightarrow> chat_result" where
  "chat_failed fs calls =
     \<lparr>response = \<lparr>status = 500, body = error_body (ascii ''Something went wrong. Please try again.'')\<rparr>,
      store = fs, upstream = calls\<rparr>"

text \<open>\<open>data.get('message', '')\<close>: \<open>None\<close> when \<open>data\<close> is not a dict (\<open>AttributeError\<close>).\<close>

definition get_message :: "json \<Rightarrow> json option" where
  "get_message data =
     (case data of
        JObj d \<Rightarrow> (case dict_get d (ascii ''message'') of None \<Rightarrow> Some (JStr []) | Some v \<Rightarrow> Some v)
      | _ \<Rightarrow> None)"

text \<open>\<open>.strip()\<close> on the value found: only a string has the method.\<close>

definition strip_value :: "json \<Rightarrow> pystr option" where
  "strip_value v = (case v of JStr s \<Rightarrow> Some (strip s) | _ \<Rightarrow> None)"

text \<open>\<open>chat_history.append(chat_entry)\<close>: only a list has the method.\<close>

definition append_entry :: "json \<Rightarrow> json \<Rightarrow> json option" where
  "append_entry chat_history chat_entry =
     (case chat_history of JArr xs \<Rightarrow> Some (JArr (xs @ [chat_entry])) | _ \<Rightarrow> None)"

definition chat_entry :: "pystr \<Rightarrow> pystr \<Rightarrow> pystr \<Rightarrow> bool \<Rightarrow> json" where
  "chat_entry user_message bot_response now is_emergency =
     JObj [(ascii ''user'', JStr user_message),
           (ascii ''bot'', JStr bot_response),
           (ascii ''timestamp'', JStr now),
           (ascii ''is_emergency'', JBool is_emergency)]"

definition chat_reply :: "pystr \<Rightarrow> bool \<Rightarrow> pystr \<Rightarrow> http_response" where
  "chat_reply bot_response is_emergency now =
     \<lparr>status = 200,
      body = JObj [(ascii ''response'', JStr bot_response),
                   (ascii ''is_emergency'', JBool is_emergency),
                   (ascii ''timestamp'', JStr now)]\<rparr>"

text \<open>
  The part of \<open>chat\<close> after the reply is known: print the log line with the first
  100 characters of the reply (line 132, it raises inside the \<open>try\<close> when the line
  cannot be encoded), build the entry, append, save, answer.
  \<open>now\<close> is \<open>datetime.now().isoformat()\<close>.
\<close>

definition record_turn ::
  "file_state \<Rightarrow> pystr \<Rightarrow> write_outcome \<Rightarrow> json \<Rightarrow> pystr \<Rightarrow> bool \<Rightarrow> pystr \<Rightarrow> json list list \<Rightarrow> chat_result" where
  "record_turn fs now w chat_history user_message is_emergency bot_response calls =
     (if \<not> print_ok (bot_log_line bot_response) then
        chat_failed fs calls
      else
        (case append_entry chat_history (chat_entry user_message bot_response now is_emergency) of
           None \<Rightarrow> chat_failed fs calls
         | Some history' \<Rightarrow>
             (case save_chat_history w history' of
                (Inl e, fs') \<Rightarrow> chat_failed fs' calls
              | (Inr u, fs') \<Rightarrow>
                  \<lparr>response = chat_reply bot_response is_emergency now, store = fs', upstream = calls\<rparr>)))"

text \<open>
  \<open>POST /api/chat\<close>. \<open>req\<close> is what \<open>request.get_json()\<close> gives (\<open>None\<close> when it raises),
  \<open>fs\<close> the transcript file, \<open>now\<close> the clock reading, \<open>api\<close> the upstream service and
  \<open>w\<close> what the file system does with the write. The log line of line 118 is printed
  inside the \<open>try\<close>: a message that cannot be encoded ends in the \<open>except\<close> clause.
\<close>

definition chat ::
  "json option \<Rightarrow> file_state \<Rightarrow> pystr \<Rightarrow> (json list \<Rightarrow> api_outcome) \<Rightarrow> write_outcome \<Rightarrow> chat_result" where
  "chat req fs now api w =
     (case req of
        None \<Rightarrow> chat_failed fs []
      | Some data \<Rightarrow>
          (case get_message data of
             None \<Rightarrow> chat_failed fs []
           | Some v \<Rightarrow>
               (case strip_value v of
                  None \<Rightarrow> chat_failed fs []
                | Some user_message \<Rightarrow>
                    if user_message = [] then
                      \<lparr>response = \<lparr>status = 400, body = error_body (ascii ''Message cannot be empty'')\<rparr>,
                       store = fs, upstream = []\<rparr>
                    else if \<not> print_ok (user_log_line user_message) then
                      chat_failed fs []
                    else if detect_emergency user_message then
                      record_turn fs now w (load_chat_history fs) user_message True EMERGENCY_REPLY []
                    else
                      (case get_gpt_response api user_message (load_chat_history fs) of
                         (None, calls) \<Rightarrow> chat_failed fs calls
                       | (Some bot_response, calls) \<Rightarrow>
                           record_turn fs now w (load_chat_history fs) user_message False bot_response calls))))"

text \<open>\<open>GET /api/history\<close>\<close>

definition get_history :: "file_state \<Rightarrow> http_response" where
  "get_history fs = \<lparr>status = 200, body = load_chat_history fs\<rparr>"

text \<open>\<open>POST /api/clear_history\<close>\<close>

definition clear_history :: "write_outcome \<Rightarrow> http_response \<times> file_state" where
  "clear_history w =
     (case save_chat_history w (JArr []) of
        (Inr u, fs') \<Rightarrow> (\<lparr>status = 200, body = JObj [(ascii ''success'', JBool True)]\<rparr>, fs')
      | (Inl e, fs') \<Rightarrow> (\<lparr>status = 500, body = error_body e\<rparr>, fs'))"

text \<open>\<open>GET /api/test\<close>\<close>

definition test_api :: "config \<Rightarrow> http_response" where
  "test_api cfg =
     \<lparr>status = 200,
      body = JObj [(ascii ''status'', JStr (ascii ''ok'')),
                   (ascii ''site_url'', JStr (SITE_URL cfg)),
                   (ascii ''api_key_set'',
                      JBool (case OPENAI_API_KEY cfg of None \<Rightarrow> False | Some k \<Rightarrow> k \<noteq> [])),
                   (ascii ''api_key_prefix'',
                      (case OPENAI_API_KEY cfg of
                         None \<Rightarrow> JNull
                       | Some k \<Rightarrow> if k \<noteq> [] then JStr (slice_to 20 k) else JNull)),
                   (ascii ''model'', JStr (ascii ''openai/gpt-4o-mini''))]\<rparr>"

section \<open>The composer in the words of the specification\<close>

text \<open>
  The last \<open>n\<close> entries of a sequence (all of them when it is shorter), in their
  original order; the messages one stored turn contributes; the outbound list: the
  system message, the messages of the last six turns, the new user message.
\<close>

definition last_entries :: "nat \<Rightarrow> 'a list \<Rightarrow> 'a list" where
  "last_entries n xs = rev (take n (rev xs))"

definition turn_messages :: "(pystr \<times> json) list \<Rightarrow> json list" where
  "turn_messages turn =
     (case dict_get turn (ascii ''user'') of
        None \<Rightarrow> []
      | Some u \<Rightarrow> if truthy u then [msg ''user'' u] else []) @
     (case dict_get turn (ascii ''bot'') of
        None \<Rightarrow> []
      | Some b \<Rightarrow> if truthy b then [msg ''assistant'' b] else [])"

definition spec_compose :: "pystr \<Rightarrow> (pystr \<times> json) list list \<Rightarrow> json list" where
  "spec_compose new_message transcript =
     [msg ''system'' (JStr SYSTEM_PROMPT)]
     @ concat (map turn_messages (last_entries 6 transcript))
     @ [msg ''user'' (JStr new_message)]"

section \<open>Sequences of submissions\<close>

text \<open>The \<open>user_message\<close> that \<open>chat\<close> reads from a request, when reading it raises nothing.\<close>

definition submitted_text :: "json option \<Rightarrow> pystr option" where
  "submitted_text req =
     (case req of
        None \<Rightarrow> None
      | Some data \<Rightarrow> (case get_message data of None \<Rightarrow> None | Some v \<Rightarrow> strip_value v))"

text \<open>
  Requests to \<open>/api/chat\<close> served one after the other, each with its body, clock
  reading, upstream behaviour and write outcome; the responses and the final file.
\<close>

fun run_chats ::
  "file_state \<Rightarrow> (json option \<times> pystr \<times> (json list \<Rightarrow> api_outcome) \<times> write_outcome) list
     \<Rightarrow> http_response list \<times> file_state" where
  "run_chats fs [] = ([], fs)"
| "run_chats fs ((req, now, api, w) # rest) =
     (case run_chats (store (chat req fs now api w)) rest of
        (responses, fs') \<Rightarrow> (response (chat req fs now api w) # responses, fs'))"

section \<open>Letter case\<close>

text \<open>
  Two code points are the same letter when they are equal or are the capital and the
  small form of one of the 26 ASCII letters.
\<close>

definition same_letter :: "nat \<Rightarrow> nat \<Rightarrow> bool" where
  "same_letter c d \<longleftrightarrow>
     c = d \<or> (65 \<le> c \<and> c \<le> 90 \<and> d = c + 32) \<or> (65 \<le> d \<and> d \<le> 90 \<and> c = d + 32)"

section \<open>Test doubles\<close>

text \<open>An upstream service that gives the same outcome to every request.\<close>

definition constant_api :: "api_outcome \<Rightarrow> json list \<Rightarrow> api_outcome" where
  "constant_api outcome messages = outcome"

text \<open>A stored turn with both fields filled, numbered to tell the turns apart.\<close>

definition sample_turn :: "nat \<Rightarrow> (pystr \<times> json) list" where
  "sample_turn n =
     [(ascii ''user'', JStr (ascii ''question '' @ [48 + n])),
      (ascii ''bot'', JStr (ascii ''answer '' @ [48 + n]))]"

section \<open>Strings: containment\<close>

lemma py_in_iff: "py_in sub s \<longleftrightarrow> sublist sub s"
  by (induction s) (auto simp: sublist_Cons_right)

lemma py_in_split: "py_in sub s \<longleftrightarrow> (\<exists>before after. s = before @ sub @ after)"
  by (simp add: py_in_iff sublist_def)

section \<open>Strings: trimming\<close>

lemma strip_blank:
  assumes "\<forall>c \<in> set s. isspace c"
  shows "strip s = []"
proof -
  from assms have d: "dropWhile isspace s = []"
    by (simp add: dropWhile_eq_Nil_conv)
  show ?thesis
    unfolding strip_def d by simp
qed

lemma strip_Nil: "strip [] = []"
  by (simp add: strip_def)




section \<open>Letter case and \<open>lower\<close>\<close>


lemma same_letter_cases:
  assumes "same_letter c d"
  obtains "c = d" | "65 \<le> c" "c \<le> 90" "d = c + 32" | "65 \<le> d" "d \<le> 90" "c = d + 32"
  using assms unfolding same_letter_def by blast

lemma capital_letter:
  assumes "65 \<le> c" and "c \<le> 90"
  shows "to_lower_full c = [c + 32]" and "to_lower_full (c + 32) = [c + 32]"
    and "is_cased c" and "is_cased (c + 32)"
    and "\<not> is_case_ignorable c" and "\<not> is_case_ignorable (c + 32)"
    and "\<not> isspace c" and "\<not> isspace (c + 32)"
    and "c \<noteq> 931" and "c + 32 \<noteq> 931"
  using assms
  by (simp_all add: to_lower_full_def is_cased_def is_case_ignorable_def isspace_def)

lemma same_letter_to_lower: "same_letter c d \<Longrightarrow> to_lower_full c = to_lower_full d"
  by (erule same_letter_cases) (simp_all add: capital_letter)

lemma same_letter_cased: "same_letter c d \<Longrightarrow> is_cased c = is_cased d"
  by (erule same_letter_cases) (simp_all add: capital_letter)

lemma same_letter_ignorable: "same_letter c d \<Longrightarrow> is_case_ignorable c = is_case_ignorable d"
  by (erule same_letter_cases) (simp_all add: capital_letter)

lemma same_letter_sigma: "same_letter c d \<Longrightarrow> (c = 931) = (d = 931)"
  by (erule same_letter_cases) (simp_all add: capital_letter)



lemma dropWhile_ignorable_same:
  "list_all2 same_letter xs ys \<Longrightarrow>
   list_all2 same_letter (dropWhile is_case_ignorable xs) (dropWhile is_case_ignorable ys)"
  by (induction rule: list_all2_induct) (auto simp: same_letter_ignorable)

lemma sigma_context_same:
  assumes "list_all2 same_letter xs ys" and "list_all2 same_letter us vs"
  shows "(case xs of [] \<Rightarrow> False
          | b # _ \<Rightarrow> is_cased b \<and> (case us of [] \<Rightarrow> True | a # _ \<Rightarrow> \<not> is_cased a)) =
         (case ys of [] \<Rightarrow> False
          | b # _ \<Rightarrow> is_cased b \<and> (case vs of [] \<Rightarrow> True | a # _ \<Rightarrow> \<not> is_cased a))"
  using assms by (cases xs; cases ys; cases us; cases vs) (auto simp: same_letter_cased)

lemma final_sigma_same:
  assumes "list_all2 same_letter before before'" and "list_all2 same_letter after after'"
  shows "final_sigma before after = final_sigma before' after'"
  unfolding final_sigma_def
  by (rule sigma_context_same) (rule dropWhile_ignorable_same, rule assms)+

lemma lower_from_same:
  "list_all2 same_letter s s' \<Longrightarrow> list_all2 same_letter before before' \<Longrightarrow>
   lower_from before s = lower_from before' s'"
proof (induction arbitrary: before before' rule: list_all2_induct)
  case Nil
  then show ?case by simp
next
  case (Cons c s d s')
  from Cons.hyps(1) Cons.prems have "list_all2 same_letter (c # before) (d # before')"
    by simp
  from Cons.IH [OF this] Cons.hyps(1) final_sigma_same [OF Cons.prems Cons.hyps(2)]
  show ?case
    by (simp add: same_letter_to_lower [of c d] same_letter_sigma [of c d])
qed

lemma lower_same: "list_all2 same_letter s s' \<Longrightarrow> lower s = lower s'"
  by (simp add: lower_def lower_from_same)


lemma lower_from_fixed:
  "list_all (\<lambda>c. c \<noteq> 931 \<and> to_lower_full c = [c]) xs \<Longrightarrow>
   lower_from before (xs @ ys) = xs @ lower_from (rev xs @ before) ys"
  by (induction xs arbitrary: before) simp_all

lemma lower_fixed:
  "list_all (\<lambda>c. c \<noteq> 931 \<and> to_lower_full c = [c]) xs \<Longrightarrow> lower xs = xs"
  using lower_from_fixed [of xs "[]" "[]"] by (simp add: lower_def)


section \<open>Transcript store\<close>



text \<open>
  Claim C9. \<open>POST /api/clear_history\<close> always answers 200 with \<open>{"success": true}\<close>,
  whatever the file system does with the write: \<open>save_chat_history\<close> never lets an
  exception out, so the handler's 500 branch is never taken.
\<close>

theorem clear_history_always_succeeds:
  "fst (clear_history w) = \<lparr>status = 200, body = JObj [(ascii ''success'', JBool True)]\<rparr>"
  by (cases w) (simp_all add: clear_history_def save_chat_history_def write_json_def)

section \<open>Emergency detector: correctness\<close>

lemma keywords_lower_case:
  "list_all (\<lambda>keyword. list_all (\<lambda>c. c \<noteq> 931 \<and> to_lower_full c = [c]) keyword) EMERGENCY_KEYWORDS"
  by code_simp


lemma keyword_lower:
  assumes "keyword \<in> set EMERGENCY_KEYWORDS"
  shows "lower keyword = keyword"
  using keywords_lower_case assms by (simp add: list_all_iff lower_fixed)

lemma detect_emergency_same:
  "list_all2 same_letter other text \<Longrightarrow> detect_emergency other = detect_emergency text"
  by (simp add: detect_emergency_def lower_same)

text \<open>
  Claim C2. For a non-empty text, \<open>detect_emergency\<close> is true exactly when the
  lower-cased text contains the lower-cased form of at least one keyword of
  \<open>EMERGENCY_KEYWORDS\<close> as a substring. The match does not depend on letter case:
  a text that differs from it only in the case of ASCII letters gets the same answer,
  and every keyword is its own lower-cased form.
\<close>

theorem detect_emergency_iff:
  assumes "text \<noteq> []"
  shows "(detect_emergency text \<longleftrightarrow>
            (\<exists>keyword \<in> set EMERGENCY_KEYWORDS.
               \<exists>before after. lower text = before @ lower keyword @ after)) \<and>
         (\<forall>other. list_all2 same_letter other text \<longrightarrow>
            detect_emergency other = detect_emergency text) \<and>
         (\<forall>keyword \<in> set EMERGENCY_KEYWORDS. lower keyword = keyword)"
  using detect_emergency_same keyword_lower
  by (simp add: detect_emergency_def list_ex_iff py_in_split)

theorem detect_emergency_iff_witness:
  "ascii ''My CHEST Pain is back'' \<noteq> [] \<and>
   list_all2 same_letter (ascii ''my chest pain IS BACK'') (ascii ''My CHEST Pain is back'') \<and>
   detect_emergency (ascii ''My CHEST Pain is back'') \<and>
   detect_emergency (ascii ''my chest pain IS BACK'') \<and>
   lower (ascii ''chest pain'') = ascii ''chest pain'' \<and>
   (\<exists>keyword \<in> set EMERGENCY_KEYWORDS.
      \<exists>before after. lower (ascii ''My CHEST Pain is back'') = before @ lower keyword @ after)"
proof -
  have ne: "ascii ''My CHEST Pain is back'' \<noteq> []"
    by code_simp
  have same: "list_all2 same_letter (ascii ''my chest pain IS BACK'') (ascii ''My CHEST Pain is back'')"
    by code_simp
  have d: "detect_emergency (ascii ''My CHEST Pain is back'')"
    by code_simp
  have k: "ascii ''chest pain'' \<in> set EMERGENCY_KEYWORDS"
    by code_simp
  from detect_emergency_iff [OF ne] d ne same k show ?thesis
    by blast
qed

section \<open>Log lines\<close>








section \<open>Recording a turn\<close>



section \<open>Chat endpoint: input validation\<close>

text \<open>
  Claim C3. A \<open>POST /api/chat\<close> whose message is empty or consists of white space
  only is answered with status 400 and an error object; the transcript file is left
  as it was and no request goes upstream.
\<close>

theorem chat_blank_message_rejected:
  assumes "dict_get d (ascii ''message'') = Some (JStr message)"
      and "\<forall>c \<in> set message. isspace c"
  shows "chat (Some (JObj d)) fs now api w =
           \<lparr>response = \<lparr>status = 400, body = JObj [(ascii ''error'', JStr (ascii ''Message cannot be empty''))]\<rparr>,
            store = fs, upstream = []\<rparr>"
  using assms by (simp add: chat_def get_message_def strip_value_def strip_blank error_body_def)

theorem chat_blank_message_rejected_witness:
  "dict_get [(ascii ''message'', JStr [32, 9, 10, 160])] (ascii ''message'') = Some (JStr [32, 9, 10, 160]) \<and>
   list_all isspace [32, 9, 10, 160] \<and>
   chat (Some (JObj [(ascii ''message'', JStr [32, 9, 10, 160])])) (Content (JArr [])) (ascii ''2025-01-01T10:00:00'')
        (constant_api (ApiReturns (ascii ''hi''))) WriteOk =
     \<lparr>response = \<lparr>status = 400, body = JObj [(ascii ''error'', JStr (ascii ''Message cannot be empty''))]\<rparr>,
      store = Content (JArr []), upstream = []\<rparr>"
proof -
  have h1: "dict_get [(ascii ''message'', JStr [32, 9, 10, 160])] (ascii ''message'') = Some (JStr [32, 9, 10, 160])"
    by code_simp
  have sp: "list_all isspace [32, 9, 10, 160]"
    by code_simp
  then have h2: "\<forall>c \<in> set [32, 9, 10, 160]. isspace c"
    by (simp only: list_all_iff)
  from chat_blank_message_rejected [OF h1 h2] h1 sp show ?thesis
    by blast
qed

text \<open>
  Claim C10. A \<open>POST /api/chat\<close> whose JSON body is an object without a
  \<open>message\<close> key is treated as an empty message: status 400 with an error object
  (not 500), the transcript file unchanged.
\<close>

theorem chat_missing_message_rejected:
  assumes "dict_get d (ascii ''message'') = None"
  shows "chat (Some (JObj d)) fs now api w =
           \<lparr>response = \<lparr>status = 400, body = JObj [(ascii ''error'', JStr (ascii ''Message cannot be empty''))]\<rparr>,
            store = fs, upstream = []\<rparr>"
  using assms by (simp add: chat_def get_message_def strip_value_def strip_Nil error_body_def)

theorem chat_missing_message_rejected_witness:
  "dict_get [(ascii ''text'', JStr (ascii ''hello''))] (ascii ''message'') = None \<and>
   chat (Some (JObj [(ascii ''text'', JStr (ascii ''hello''))])) (Content (JArr [])) (ascii ''2025-01-01T10:00:00'')
        (constant_api (ApiReturns (ascii ''hi''))) WriteOk =
     \<lparr>response = \<lparr>status = 400, body = JObj [(ascii ''error'', JStr (ascii ''Message cannot be empty''))]\<rparr>,
      store = Content (JArr []), upstream = []\<rparr>"
proof -
  have h1: "dict_get [(ascii ''text'', JStr (ascii ''hello''))] (ascii ''message'') = None"
    by code_simp
  from chat_missing_message_rejected [OF h1] h1 show ?thesis
    by blast
qed

section \<open>Chat endpoint: emergency path\<close>





text \<open>
  Without the two conditions the handler ends in its \<open>except\<close> clause: a message with
  a keyword and a lone surrogate cannot be logged, and a stored file that holds a JSON
  object has no \<open>append\<close>; both are answered with status 500.
\<close>

theorem chat_emergency_counterexample:
  "sublist (ascii ''chest pain'') (ascii ''I have chest pain '' @ [55296]) \<and>
   response (chat (Some (JObj [(ascii ''message'', JStr (ascii ''I have chest pain '' @ [55296]))])) Absent
               (ascii ''2025-01-01T10:00:00'') (constant_api (ApiReturns (ascii ''hi''))) WriteOk) =
     \<lparr>status = 500, body = JObj [(ascii ''error'', JStr (ascii ''Something went wrong. Please try again.''))]\<rparr> \<and>
   sublist (ascii ''chest pain'') (ascii ''I have chest pain'') \<and>
   response (chat (Some (JObj [(ascii ''message'', JStr (ascii ''I have chest pain''))])) (Content (JObj []))
               (ascii ''2025-01-01T10:00:00'') (constant_api (ApiReturns (ascii ''hi''))) WriteOk) =
     \<lparr>status = 500, body = JObj [(ascii ''error'', JStr (ascii ''Something went wrong. Please try again.''))]\<rparr>"
  by code_simp

section \<open>Conversation composer\<close>

lemma slice_from_last6: "slice_from (- 6) xs = drop (length xs - 6) xs"
  by (auto simp: slice_from_def Let_def max_def nat_diff_distrib')

lemma last_entries_drop: "last_entries n xs = drop (length xs - n) xs"
  by (simp add: last_entries_def rev_take)

lemma add_context_turns:
  "add_context (map JObj turns) messages = Some (messages @ concat (map turn_messages turns))"
  by (induction turns arbitrary: messages)
     (auto simp: append_turn_part_def turn_messages_def split: option.splits)

lemma compose_messages_spec:
  "compose_messages new_message (JArr (map JObj transcript)) = Some (spec_compose new_message transcript)"
proof -
  have "slice_from (- 6) (map JObj transcript) = map JObj (last_entries 6 transcript)"
    by (simp add: slice_from_last6 last_entries_drop drop_map)
  then show ?thesis
    by (simp add: compose_messages_def history_window_def add_context_turns spec_compose_def)
qed

lemma compose_messages_window:
  assumes "length recent = 6"
  shows "compose_messages new_message (JArr (earlier @ recent)) = compose_messages new_message (JArr recent)"
  using assms by (simp add: compose_messages_def history_window_def slice_from_last6)

text \<open>
  Claim C4. For every new message and every transcript (a list of stored turns), the
  composed list is the one the specification describes: one system message with the
  fixed instruction, then for each of the last six turns (fewer when the transcript is
  shorter, in order) a user message if its \<open>user\<close> field is non-empty and an assistant
  message if its \<open>bot\<close> field is non-empty, then one user message with the new text.
  Entries before the last six have no influence on the result.
\<close>

theorem compose_messages_correct:
  "compose_messages new_message (JArr (map JObj transcript)) = Some (spec_compose new_message transcript) \<and>
   (length recent = 6 \<longrightarrow>
      compose_messages new_message (JArr (earlier @ recent)) = compose_messages new_message (JArr recent))"
  using compose_messages_spec compose_messages_window by blast

theorem compose_messages_correct_witness:
  "length (map JObj (map sample_turn [1, 2, 3, 4, 5, 6])) = 6 \<and>
   compose_messages (ascii ''hello'')
     (JArr (map JObj (map sample_turn [0]) @ map JObj (map sample_turn [1, 2, 3, 4, 5, 6]))) =
   compose_messages (ascii ''hello'') (JArr (map JObj (map sample_turn [1, 2, 3, 4, 5, 6]))) \<and>
   compose_messages (ascii ''hello'') (JArr (map JObj (map sample_turn [0, 1]))) =
     Some [msg ''system'' (JStr SYSTEM_PROMPT),
           msg ''user'' (JStr (ascii ''question 0'')), msg ''assistant'' (JStr (ascii ''answer 0'')),
           msg ''user'' (JStr (ascii ''question 1'')), msg ''assistant'' (JStr (ascii ''answer 1'')),
           msg ''user'' (JStr (ascii ''hello''))]"
proof -
  have len: "length (map JObj (map sample_turn [1, 2, 3, 4, 5, 6])) = 6"
    by simp
  have spec: "spec_compose (ascii ''hello'') (map sample_turn [0, 1]) =
     [msg ''system'' (JStr SYSTEM_PROMPT),
      msg ''user'' (JStr (ascii ''question 0'')), msg ''assistant'' (JStr (ascii ''answer 0'')),
      msg ''user'' (JStr (ascii ''question 1'')), msg ''assistant'' (JStr (ascii ''answer 1'')),
      msg ''user'' (JStr (ascii ''hello''))]"
    by code_simp
  from compose_messages_correct [of "ascii ''hello''" "map sample_turn [0, 1]"
      "map JObj (map sample_turn [1, 2, 3, 4, 5, 6])" "map JObj (map sample_turn [0])"] len spec
  show ?thesis
    by simp
qed

section \<open>Model gateway: failures\<close>

lemma get_gpt_response_error:
  assumes "compose_messages user_input chat_history = Some messages"
      and "api messages = ApiRaises error_msg"
  shows "get_gpt_response api user_input chat_history = (Some (error_reply error_msg), [messages])"
  using assms by (simp add: get_gpt_response_def)


text \<open>
  Claim C6, as the code has it. The checks run in the order 401, 402, 429: an error
  whose message contains \<open>401\<close> gives the authentication warning; an error whose
  message contains \<open>429\<close> gives the rate-limit warning when none of the earlier checks
  (\<open>401\<close>, \<open>authentication\<close>, \<open>402\<close>, \<open>credit\<close>) matches.
\<close>

theorem gateway_error_classification:
  assumes "compose_messages user_input chat_history = Some messages"
      and "api messages = ApiRaises error_msg"
  shows "(py_in (ascii ''401'') error_msg \<longrightarrow>
            fst (get_gpt_response api user_input chat_history) = Some AUTH_WARNING) \<and>
         (py_in (ascii ''429'') error_msg \<and>
          \<not> py_in (ascii ''401'') error_msg \<and> \<not> py_in (ascii ''authentication'') (lower error_msg) \<and>
          \<not> py_in (ascii ''402'') error_msg \<and> \<not> py_in (ascii ''credit'') (lower error_msg) \<longrightarrow>
            fst (get_gpt_response api user_input chat_history) = Some RATE_LIMIT_WARNING)"
  using get_gpt_response_error [of user_input chat_history messages api error_msg] assms
  by (simp add: error_reply_def)

theorem gateway_error_classification_witness:
  "compose_messages (ascii ''hello'') (JArr []) =
     Some [msg ''system'' (JStr SYSTEM_PROMPT), msg ''user'' (JStr (ascii ''hello''))] \<and>
   constant_api (ApiRaises (ascii ''Error code: 401 - No auth credentials found''))
     [msg ''system'' (JStr SYSTEM_PROMPT), msg ''user'' (JStr (ascii ''hello''))] =
     ApiRaises (ascii ''Error code: 401 - No auth credentials found'') \<and>
   py_in (ascii ''401'') (ascii ''Error code: 401 - No auth credentials found'') \<and>
   fst (get_gpt_response (constant_api (ApiRaises (ascii ''Error code: 401 - No auth credentials found'')))
          (ascii ''hello'') (JArr [])) = Some AUTH_WARNING \<and>
   constant_api (ApiRaises (ascii ''Error code: 429 - Too many requests''))
     [msg ''system'' (JStr SYSTEM_PROMPT), msg ''user'' (JStr (ascii ''hello''))] =
     ApiRaises (ascii ''Error code: 429 - Too many requests'') \<and>
   py_in (ascii ''429'') (ascii ''Error code: 429 - Too many requests'') \<and>
   \<not> py_in (ascii ''401'') (ascii ''Error code: 429 - Too many requests'') \<and>
   \<not> py_in (ascii ''authentication'') (lower (ascii ''Error code: 429 - Too many requests'')) \<and>
   \<not> py_in (ascii ''402'') (ascii ''Error code: 429 - Too many requests'') \<and>
   \<not> py_in (ascii ''credit'') (lower (ascii ''Error code: 429 - Too many requests'')) \<and>
   fst (get_gpt_response (constant_api (ApiRaises (ascii ''Error code: 429 - Too many requests'')))
          (ascii ''hello'') (JArr [])) = Some RATE_LIMIT_WARNING"
proof -
  have c: "compose_messages (ascii ''hello'') (JArr []) =
     Some [msg ''system'' (JStr SYSTEM_PROMPT), msg ''user'' (JStr (ascii ''hello''))]"
    by (simp add: compose_messages_def history_window_def slice_from_def)
  have a1: "constant_api (ApiRaises (ascii ''Error code: 401 - No auth credentials found''))
     [msg ''system'' (JStr SYSTEM_PROMPT), msg ''user'' (JStr (ascii ''hello''))] =
     ApiRaises (ascii ''Error code: 401 - No auth credentials found'')"
    by (simp add: constant_api_def)
  have a2: "constant_api (ApiRaises (ascii ''Error code: 429 - Too many requests''))
     [msg ''system'' (JStr SYSTEM_PROMPT), msg ''user'' (JStr (ascii ''hello''))] =
     ApiRaises (ascii ''Error code: 429 - Too many requests'')"
    by (simp add: constant_api_def)
  have p1: "py_in (ascii ''401'') (ascii ''Error code: 401 - No auth credentials found'')"
    by code_simp
  have p2: "py_in (ascii ''429'') (ascii ''Error code: 429 - Too many requests'') \<and>
   \<not> py_in (ascii ''401'') (ascii ''Error code: 429 - Too many requests'') \<and>
   \<not> py_in (ascii ''authentication'') (lower (ascii ''Error code: 429 - Too many requests'')) \<and>
   \<not> py_in (ascii ''402'') (ascii ''Error code: 429 - Too many requests'') \<and>
   \<not> py_in (ascii ''credit'') (lower (ascii ''Error code: 429 - Too many requests''))"
    by code_simp
  from gateway_error_classification
         [where api = "constant_api (ApiRaises (ascii ''Error code: 401 - No auth credentials found''))"
            and error_msg = "ascii ''Error code: 401 - No auth credentials found''"
            and user_input = "ascii ''hello''" and chat_history = "JArr []"
            and messages = "[msg ''system'' (JStr SYSTEM_PROMPT), msg ''user'' (JStr (ascii ''hello''))]"]
       gateway_error_classification
         [where api = "constant_api (ApiRaises (ascii ''Error code: 429 - Too many requests''))"
            and error_msg = "ascii ''Error code: 429 - Too many requests''"
            and user_input = "ascii ''hello''" and chat_history = "JArr []"
            and messages = "[msg ''system'' (JStr SYSTEM_PROMPT), msg ''user'' (JStr (ascii ''hello''))]"]
       c a1 a2 p1 p2
  show ?thesis
    by blast
qed

text \<open>
  The claim as the specification words it (every error containing \<open>429\<close> gives the
  rate-limit warning) fails on an error text that also mentions credits: the
  \<open>credit\<close> check comes first.
\<close>

theorem gateway_429_counterexample:
  "py_in (ascii ''429'')
     (ascii ''Error code: 429 - Rate limit exceeded: free-models-per-day. Add 10 credits to unlock 1000 free model requests per day'') \<and>
   fst (get_gpt_response
          (constant_api (ApiRaises (ascii ''Error code: 429 - Rate limit exceeded: free-models-per-day. Add 10 credits to unlock 1000 free model requests per day'')))
          (ascii ''hello'') (JArr [])) = Some CREDITS_WARNING \<and>
   fst (get_gpt_response
          (constant_api (ApiRaises (ascii ''Error code: 429 - Rate limit exceeded: free-models-per-day. Add 10 credits to unlock 1000 free model requests per day'')))
          (ascii ''hello'') (JArr [])) \<noteq> Some RATE_LIMIT_WARNING"
  by code_simp

section \<open>Chat endpoint: upstream failure\<close>



text \<open>
  Outside these conditions the claim fails: a message with a lone surrogate is answered
  with status 500; when the write fails the answer is 200 but the turn is not in the
  history; and a stored file holding the JSON string \<open>""\<close> lets the request go
  upstream and then fails at \<open>append\<close> with status 500.
\<close>

theorem chat_upstream_error_counterexample:
  "response (chat (Some (JObj [(ascii ''message'', JStr (ascii ''hello '' @ [55296]))])) Absent
               (ascii ''2025-01-01T10:00:00'') (constant_api (ApiRaises (ascii ''Connection error.''))) WriteOk) =
     \<lparr>status = 500, body = JObj [(ascii ''error'', JStr (ascii ''Something went wrong. Please try again.''))]\<rparr> \<and>
   response (chat (Some (JObj [(ascii ''message'', JStr (ascii ''hello''))])) Absent
               (ascii ''2025-01-01T10:00:00'') (constant_api (ApiRaises (ascii ''Connection error.'')))
               (WriteFails (ascii ''[Errno 28] No space left on device'') Unreadable)) =
     \<lparr>status = 200,
      body = JObj [(ascii ''response'', JStr GENERIC_WARNING),
                   (ascii ''is_emergency'', JBool False),
                   (ascii ''timestamp'', JStr (ascii ''2025-01-01T10:00:00''))]\<rparr> \<and>
   get_history (store (chat (Some (JObj [(ascii ''message'', JStr (ascii ''hello''))])) Absent
               (ascii ''2025-01-01T10:00:00'') (constant_api (ApiRaises (ascii ''Connection error.'')))
               (WriteFails (ascii ''[Errno 28] No space left on device'') Unreadable))) =
     \<lparr>status = 200, body = JArr []\<rparr> \<and>
   chat (Some (JObj [(ascii ''message'', JStr (ascii ''hello''))])) (Content (JStr []))
        (ascii ''2025-01-01T10:00:00'') (constant_api (ApiRaises (ascii ''Connection error.''))) WriteOk =
     \<lparr>response =
        \<lparr>status = 500, body = JObj [(ascii ''error'', JStr (ascii ''Something went wrong. Please try again.''))]\<rparr>,
      store = Content (JStr []),
      upstream = [[msg ''system'' (JStr SYSTEM_PROMPT), msg ''user'' (JStr (ascii ''hello''))]]\<rparr>"
  by code_simp

section \<open>Diagnostics endpoint\<close>

lemma slice_to_take: "slice_to (int n) xs = take n xs"
  by (auto simp: slice_to_def Let_def min_def)

lemma slice_to_20: "slice_to 20 xs = take 20 xs"
  using slice_to_take [of 20 xs] by simp

text \<open>
  Claim C7, as the code has it. With a non-empty key configured, \<open>GET /api/test\<close>
  reports \<open>api_key_set\<close> true, the first 20 characters of the key as
  \<open>api_key_prefix\<close> (which is the whole key exactly when the key has at most 20
  characters), the site URL and the fixed model identifier; with no key (or an empty
  one) it reports \<open>api_key_set\<close> false and a null prefix.
\<close>

theorem test_api_reports:
  "(OPENAI_API_KEY cfg = Some key \<and> key \<noteq> [] \<longrightarrow>
      test_api cfg =
        \<lparr>status = 200,
         body = JObj [(ascii ''status'', JStr (ascii ''ok'')),
                      (ascii ''site_url'', JStr (SITE_URL cfg)),
                      (ascii ''api_key_set'', JBool True),
                      (ascii ''api_key_prefix'', JStr (take 20 key)),
                      (ascii ''model'', JStr (ascii ''openai/gpt-4o-mini''))]\<rparr> \<and>
      (take 20 key = key \<longleftrightarrow> length key \<le> 20)) \<and>
   (OPENAI_API_KEY cfg = None \<or> OPENAI_API_KEY cfg = Some [] \<longrightarrow>
      test_api cfg =
        \<lparr>status = 200,
         body = JObj [(ascii ''status'', JStr (ascii ''ok'')),
                      (ascii ''site_url'', JStr (SITE_URL cfg)),
                      (ascii ''api_key_set'', JBool False),
                      (ascii ''api_key_prefix'', JNull),
                      (ascii ''model'', JStr (ascii ''openai/gpt-4o-mini''))]\<rparr>)"
  by (auto simp: test_api_def slice_to_20)

theorem test_api_reports_witness:
  "OPENAI_API_KEY \<lparr>OPENAI_API_KEY = Some (ascii ''sk-or-v1-0123456789abcdef0123456789''), SITE_URL = ascii ''https://ai-1-itlj.onrender.com''\<rparr>
     = Some (ascii ''sk-or-v1-0123456789abcdef0123456789'') \<and>
   ascii ''sk-or-v1-0123456789abcdef0123456789'' \<noteq> [] \<and>
   test_api \<lparr>OPENAI_API_KEY = Some (ascii ''sk-or-v1-0123456789abcdef0123456789''), SITE_URL = ascii ''https://ai-1-itlj.onrender.com''\<rparr> =
     \<lparr>status = 200,
      body = JObj [(ascii ''status'', JStr (ascii ''ok'')),
                   (ascii ''site_url'', JStr (ascii ''https://ai-1-itlj.onrender.com'')),
                   (ascii ''api_key_set'', JBool True),
                   (ascii ''api_key_prefix'', JStr (ascii ''sk-or-v1-0123456789a'')),
                   (ascii ''model'', JStr (ascii ''openai/gpt-4o-mini''))]\<rparr> \<and>
   OPENAI_API_KEY \<lparr>OPENAI_API_KEY = None, SITE_URL = ascii ''https://ai-1-itlj.onrender.com''\<rparr> = None \<and>
   test_api \<lparr>OPENAI_API_KEY = None, SITE_URL = ascii ''https://ai-1-itlj.onrender.com''\<rparr> =
     \<lparr>status = 200,
      body = JObj [(ascii ''status'', JStr (ascii ''ok'')),
                   (ascii ''site_url'', JStr (ascii ''https://ai-1-itlj.onrender.com'')),
                   (ascii ''api_key_set'', JBool False),
                   (ascii ''api_key_prefix'', JNull),
                   (ascii ''model'', JStr (ascii ''openai/gpt-4o-mini''))]\<rparr>"
proof -
  have k: "ascii ''sk-or-v1-0123456789abcdef0123456789'' \<noteq> []"
    by code_simp
  have t: "take 20 (ascii ''sk-or-v1-0123456789abcdef0123456789'') = ascii ''sk-or-v1-0123456789a''"
    by code_simp
  from test_api_reports [of "\<lparr>OPENAI_API_KEY = Some (ascii ''sk-or-v1-0123456789abcdef0123456789''), SITE_URL = ascii ''https://ai-1-itlj.onrender.com''\<rparr>"
        "ascii ''sk-or-v1-0123456789abcdef0123456789''"]
      test_api_reports [of "\<lparr>OPENAI_API_KEY = None, SITE_URL = ascii ''https://ai-1-itlj.onrender.com''\<rparr>" "[]"]
      k
  show ?thesis
    by (simp add: t)
qed

text \<open>
  A key of at most 20 characters is reported in full: the prefix is then the whole
  secret.
\<close>

theorem test_api_short_key_counterexample:
  "test_api \<lparr>OPENAI_API_KEY = Some (ascii ''sk-or-v1-2f9a''), SITE_URL = ascii ''https://ai-1-itlj.onrender.com''\<rparr> =
     \<lparr>status = 200,
      body = JObj [(ascii ''status'', JStr (ascii ''ok'')),
                   (ascii ''site_url'', JStr (ascii ''https://ai-1-itlj.onrender.com'')),
                   (ascii ''api_key_set'', JBool True),
                   (ascii ''api_key_prefix'', JStr (ascii ''sk-or-v1-2f9a'')),
                   (ascii ''model'', JStr (ascii ''openai/gpt-4o-mini''))]\<rparr>"
  by code_simp

section \<open>Transcript growth\<close>

lemma record_turn_ok:
  assumes "status (response (record_turn fs now WriteOk (JArr turns) user_message is_emergency bot_response calls)) = 200"
  shows "store (record_turn fs now WriteOk (JArr turns) user_message is_emergency bot_response calls) =
           Content (JArr (turns @ [chat_entry user_message bot_response now is_emergency]))"
  using assms
  by (simp add: record_turn_def append_entry_def save_chat_history_def write_json_def chat_failed_def
      split: if_splits)

lemma chat_success_appends:
  assumes "status (response (chat req fs now api WriteOk)) = 200"
      and "load_chat_history fs = JArr turns"
  shows "\<exists>user_message bot_response is_emergency.
           submitted_text req = Some user_message \<and>
           store (chat req fs now api WriteOk) =
             Content (JArr (turns @ [chat_entry user_message bot_response now is_emergency]))"
proof (cases "submitted_text req")
  case None
  with assms(1) show ?thesis
    by (auto simp: chat_def submitted_text_def chat_failed_def split: option.splits)
next
  case (Some user_message)
  then obtain data v where req: "req = Some data" "get_message data = Some v" "strip_value v = Some user_message"
    by (auto simp: submitted_text_def split: option.splits)
  show ?thesis
  proof (cases "user_message = [] \<or> \<not> print_ok (user_log_line user_message)")
    case True
    with assms(1) req show ?thesis
      by (auto simp: chat_def chat_failed_def split: if_splits)
  next
    case False
    show ?thesis
    proof (cases "detect_emergency user_message")
      case True
      with False req assms(2) have c: "chat req fs now api WriteOk =
          record_turn fs now WriteOk (JArr turns) user_message True EMERGENCY_REPLY []"
        by (simp add: chat_def)
      from record_turn_ok [of fs now turns user_message True EMERGENCY_REPLY "[]"] assms(1) c
      have "store (chat req fs now api WriteOk) =
           Content (JArr (turns @ [chat_entry user_message EMERGENCY_REPLY now True]))"
        by simp
      with Some show ?thesis
        by blast
    next
      case no_emergency: False
      obtain reply calls where g: "get_gpt_response api user_message (JArr turns) = (reply, calls)"
        by (cases "get_gpt_response api user_message (JArr turns)") blast
      show ?thesis
      proof (cases reply)
        case None
        with assms False no_emergency req g show ?thesis
          by (simp add: chat_def chat_failed_def)
      next
        case (Some bot_response)
        with False no_emergency req g assms(2) have c: "chat req fs now api WriteOk =
            record_turn fs now WriteOk (JArr turns) user_message False bot_response calls"
          by (simp add: chat_def)
        from record_turn_ok [of fs now turns user_message False bot_response calls] assms(1) c
        have "store (chat req fs now api WriteOk) =
             Content (JArr (turns @ [chat_entry user_message bot_response now False]))"
          by simp
        with \<open>submitted_text req = Some user_message\<close> show ?thesis
          by blast
      qed
    qed
  qed
qed

text \<open>
  Claim C8, as the code has it. Start from any stored transcript (the empty one
  included). After \<open>n\<close> chat submissions that are all answered with status 200 and
  whose transcript writes all succeed, \<open>GET /api/history\<close> returns the earlier turns
  unchanged, followed by exactly \<open>n\<close> new turns in submission order; each new turn
  holds the trimmed message of its submission and the clock reading taken while that
  submission was served.
\<close>

theorem history_after_submissions:
  assumes "load_chat_history fs = JArr turns"
      and "\<forall>r \<in> set (fst (run_chats fs submissions)). status r = 200"
      and "\<forall>(req, now, api, w) \<in> set submissions. w = WriteOk"
  shows "\<exists>new. get_history (snd (run_chats fs submissions)) = \<lparr>status = 200, body = JArr (turns @ new)\<rparr> \<and>
               list_all2
                 (\<lambda>(req, now, api, w) entry.
                    \<exists>user_message bot_response is_emergency.
                      submitted_text req = Some user_message \<and>
                      entry = chat_entry user_message bot_response now is_emergency)
                 submissions new"
  using assms
proof (induction submissions arbitrary: fs turns)
  case Nil
  then show ?case
    by (simp add: get_history_def)
next
  case (Cons s submissions)
  obtain req now api w where s: "s = (req, now, api, w)"
    by (cases s) auto
  from Cons.prems(3) s have w: "w = WriteOk"
    by simp
  obtain responses fs' where run: "run_chats (store (chat req fs now api w)) submissions = (responses, fs')"
    by (cases "run_chats (store (chat req fs now api w)) submissions") blast
  from Cons.prems(2) s run have ok: "status (response (chat req fs now api WriteOk)) = 200"
    and rest_ok: "\<forall>r \<in> set (fst (run_chats (store (chat req fs now api w)) submissions)). status r = 200"
    by (simp_all add: w)
  from chat_success_appends [OF ok Cons.prems(1)] obtain user_message bot_response is_emergency where
    e: "submitted_text req = Some user_message"
       "store (chat req fs now api WriteOk) =
          Content (JArr (turns @ [chat_entry user_message bot_response now is_emergency]))"
    by blast
  have loaded: "load_chat_history (store (chat req fs now api w)) =
      JArr ((turns @ [chat_entry user_message bot_response now is_emergency]))"
    by (simp add: w e(2) load_chat_history_def)
  from Cons.prems(3) have rest_w: "\<forall>(req, now, api, w) \<in> set submissions. w = WriteOk"
    by simp
  from Cons.IH [OF loaded rest_ok rest_w] obtain new where
    n: "get_history (snd (run_chats (store (chat req fs now api w)) submissions)) =
          \<lparr>status = 200, body = JArr ((turns @ [chat_entry user_message bot_response now is_emergency]) @ new)\<rparr>"
       "list_all2
          (\<lambda>(req, now, api, w) entry.
             \<exists>user_message bot_response is_emergency.
               submitted_text req = Some user_message \<and>
               entry = chat_entry user_message bot_response now is_emergency)
          submissions new"
    by blast
  have "get_history (snd (run_chats fs (s # submissions))) =
      \<lparr>status = 200, body = JArr (turns @ (chat_entry user_message bot_response now is_emergency # new))\<rparr>"
    using n(1) by (simp add: s run)
  moreover have "list_all2
          (\<lambda>(req, now, api, w) entry.
             \<exists>user_message bot_response is_emergency.
               submitted_text req = Some user_message \<and>
               entry = chat_entry user_message bot_response now is_emergency)
          (s # submissions) (chat_entry user_message bot_response now is_emergency # new)"
    using n(2) e(1) by (auto simp: s)
  ultimately show ?case
    by blast
qed

theorem history_after_submissions_witness:
  "load_chat_history Absent = JArr [] \<and>
   map status (fst (run_chats Absent
       [(Some (JObj [(ascii ''message'', JStr (ascii ''hello''))]), ascii ''2025-01-01T10:00:00'',
         constant_api (ApiReturns (ascii ''Hi!'')), WriteOk),
        (Some (JObj [(ascii ''message'', JStr (ascii ''I have chest pain''))]), ascii ''2025-01-01T10:00:05'',
         constant_api (ApiReturns (ascii ''Hi!'')), WriteOk)])) = [200, 200] \<and>
   map (snd \<circ> snd \<circ> snd)
       [(Some (JObj [(ascii ''message'', JStr (ascii ''hello''))]), ascii ''2025-01-01T10:00:00'',
         constant_api (ApiReturns (ascii ''Hi!'')), WriteOk),
        (Some (JObj [(ascii ''message'', JStr (ascii ''I have chest pain''))]), ascii ''2025-01-01T10:00:05'',
         constant_api (ApiReturns (ascii ''Hi!'')), WriteOk)] = [WriteOk, WriteOk] \<and>
   (\<exists>new. get_history (snd (run_chats Absent
       [(Some (JObj [(ascii ''message'', JStr (ascii ''hello''))]), ascii ''2025-01-01T10:00:00'',
         constant_api (ApiReturns (ascii ''Hi!'')), WriteOk),
        (Some (JObj [(ascii ''message'', JStr (ascii ''I have chest pain''))]), ascii ''2025-01-01T10:00:05'',
         constant_api (ApiReturns (ascii ''Hi!'')), WriteOk)])) =
           \<lparr>status = 200, body = JArr ([] @ new)\<rparr> \<and>
         length new = 2)"
proof -
  have h1: "load_chat_history Absent = JArr []"
    by (simp add: load_chat_history_def)
  have s: "map status (fst (run_chats Absent
       [(Some (JObj [(ascii ''message'', JStr (ascii ''hello''))]), ascii ''2025-01-01T10:00:00'',
         constant_api (ApiReturns (ascii ''Hi!'')), WriteOk),
        (Some (JObj [(ascii ''message'', JStr (ascii ''I have chest pain''))]), ascii ''2025-01-01T10:00:05'',
         constant_api (ApiReturns (ascii ''Hi!'')), WriteOk)])) = [200, 200]"
    by code_simp
  have h2: "\<forall>r \<in> set (fst (run_chats Absent
       [(Some (JObj [(ascii ''message'', JStr (ascii ''hello''))]), ascii ''2025-01-01T10:00:00'',
         constant_api (ApiReturns (ascii ''Hi!'')), WriteOk),
        (Some (JObj [(ascii ''message'', JStr (ascii ''I have chest pain''))]), ascii ''2025-01-01T10:00:05'',
         constant_api (ApiReturns (ascii ''Hi!'')), WriteOk)])). status r = 200"
  proof
    fix r
    assume "r \<in> set (fst (run_chats Absent
       [(Some (JObj [(ascii ''message'', JStr (ascii ''hello''))]), ascii ''2025-01-01T10:00:00'',
         constant_api (ApiReturns (ascii ''Hi!'')), WriteOk),
        (Some (JObj [(ascii ''message'', JStr (ascii ''I have chest pain''))]), ascii ''2025-01-01T10:00:05'',
         constant_api (ApiReturns (ascii ''Hi!'')), WriteOk)]))"
    then have "status r \<in> set (map status (fst (run_chats Absent
       [(Some (JObj [(ascii ''message'', JStr (ascii ''hello''))]), ascii ''2025-01-01T10:00:00'',
         constant_api (ApiReturns (ascii ''Hi!'')), WriteOk),
        (Some (JObj [(ascii ''message'', JStr (ascii ''I have chest pain''))]), ascii ''2025-01-01T10:00:05'',
         constant_api (ApiReturns (ascii ''Hi!'')), WriteOk)])))"
      by (simp only: set_map image_eqI)
    then show "status r = 200"
      unfolding s by simp
  qed
  have w: "map (snd \<circ> snd \<circ> snd)
       [(Some (JObj [(ascii ''message'', JStr (ascii ''hello''))]), ascii ''2025-01-01T10:00:00'',
         constant_api (ApiReturns (ascii ''Hi!'')), WriteOk),
        (Some (JObj [(ascii ''message'', JStr (ascii ''I have chest pain''))]), ascii ''2025-01-01T10:00:05'',
         constant_api (ApiReturns (ascii ''Hi!'')), WriteOk)] = [WriteOk, WriteOk]"
    by simp
  have h3: "\<forall>(req, now, api, w) \<in> set
       [(Some (JObj [(ascii ''message'', JStr (ascii ''hello''))]), ascii ''2025-01-01T10:00:00'',
         constant_api (ApiReturns (ascii ''Hi!'')), WriteOk),
        (Some (JObj [(ascii ''message'', JStr (ascii ''I have chest pain''))]), ascii ''2025-01-01T10:00:05'',
         constant_api (ApiReturns (ascii ''Hi!'')), WriteOk)]. w = WriteOk"
    by simp
  from history_after_submissions [OF h1 h2 h3] obtain new where
    n: "get_history (snd (run_chats Absent
       [(Some (JObj [(ascii ''message'', JStr (ascii ''hello''))]), ascii ''2025-01-01T10:00:00'',
         constant_api (ApiReturns (ascii ''Hi!'')), WriteOk),
        (Some (JObj [(ascii ''message'', JStr (ascii ''I have chest pain''))]), ascii ''2025-01-01T10:00:05'',
         constant_api (ApiReturns (ascii ''Hi!'')), WriteOk)])) =
           \<lparr>status = 200, body = JArr ([] @ new)\<rparr>"
    and l: "length new = length
       [(Some (JObj [(ascii ''message'', JStr (ascii ''hello''))]), ascii ''2025-01-01T10:00:00'',
         constant_api (ApiReturns (ascii ''Hi!'')), WriteOk),
        (Some (JObj [(ascii ''message'', JStr (ascii ''I have chest pain''))]), ascii ''2025-01-01T10:00:05'',
         constant_api (ApiReturns (ascii ''Hi!'')), WriteOk)]"
    by (auto dest: list_all2_lengthD)
  from l have "length new = 2"
    by simp
  with n h1 s w show ?thesis
    by blast
qed

text \<open>
  Without the two conditions the claim fails. A submission answered with 200 whose
  write fails (the disk is full and the file is left truncated) is not in the history
  afterwards; and when the wall clock is set back between two submissions (the end of
  daylight saving time), the second stored timestamp is the earlier one.
\<close>

theorem history_after_submissions_counterexample:
  "status (response (chat (Some (JObj [(ascii ''message'', JStr (ascii ''hello''))])) Absent
             (ascii ''2025-01-01T10:00:00'') (constant_api (ApiReturns (ascii ''Hi!'')))
             (WriteFails (ascii ''[Errno 28] No space left on device'') Unreadable))) = 200 \<and>
   get_history (store (chat (Some (JObj [(ascii ''message'', JStr (ascii ''hello''))])) Absent
             (ascii ''2025-01-01T10:00:00'') (constant_api (ApiReturns (ascii ''Hi!'')))
             (WriteFails (ascii ''[Errno 28] No space left on device'') Unreadable))) =
     \<lparr>status = 200, body = JArr []\<rparr> \<and>
   map status (fst (run_chats Absent
       [(Some (JObj [(ascii ''message'', JStr (ascii ''hello''))]), ascii ''2025-11-02T01:59:58'',
         constant_api (ApiReturns (ascii ''Hi!'')), WriteOk),
        (Some (JObj [(ascii ''message'', JStr (ascii ''thanks''))]), ascii ''2025-11-02T01:00:03'',
         constant_api (ApiReturns (ascii ''Bye!'')), WriteOk)])) = [200, 200] \<and>
   get_history (snd (run_chats Absent
       [(Some (JObj [(ascii ''message'', JStr (ascii ''hello''))]), ascii ''2025-11-02T01:59:58'',
         constant_api (ApiReturns (ascii ''Hi!'')), WriteOk),
        (Some (JObj [(ascii ''message'', JStr (ascii ''thanks''))]), ascii ''2025-11-02T01:00:03'',
         constant_api (ApiReturns (ascii ''Bye!'')), WriteOk)])) =
     \<lparr>status = 200,
      body = JArr [chat_entry (ascii ''hello'') (ascii ''Hi!'') (ascii ''2025-11-02T01:59:58'') False,
                   chat_entry (ascii ''thanks'') (ascii ''Bye!'') (ascii ''2025-11-02T01:00:03'') False]\<rparr>"
  by code_simp

end
